theory Spec2Isabelle
  imports Complex_Main "HOL-Library.AList"
begin

section \<open>Numbers of the interpreter\<close>

text \<open>
  PyBank.py is Python 2 (it uses the \<^verbatim>\<open>print\<close> statement). A number held by an account is
  a Python \<^verbatim>\<open>int\<close> or a Python \<^verbatim>\<open>float\<close>. An \<^verbatim>\<open>int\<close> is unbounded; a \<^verbatim>\<open>float\<close> is
  modelled by the rational number it denotes, so rounding is outside this model. The
  tag is kept because the operator \<^verbatim>\<open>/\<close> of Python 2 is floor division between two
  \<^verbatim>\<open>int\<close>s and true division as soon as one operand is a \<^verbatim>\<open>float\<close>. Comparisons
  (\<^verbatim>\<open>>=\<close>, \<^verbatim>\<open>>\<close>, \<^verbatim>\<open>==\<close>) compare the denoted values.
\<close>

datatype pnum = PInt int | PFloat rat

fun val :: "pnum \<Rightarrow> rat" where
  "val (PInt i) = of_int i"
| "val (PFloat r) = r"

fun padd :: "pnum \<Rightarrow> pnum \<Rightarrow> pnum" where
  "padd (PInt i) (PInt j) = PInt (i + j)"
| "padd x y = PFloat (val x + val y)"

fun psub :: "pnum \<Rightarrow> pnum \<Rightarrow> pnum" where
  "psub (PInt i) (PInt j) = PInt (i - j)"
| "psub x y = PFloat (val x - val y)"

fun pmul :: "pnum \<Rightarrow> pnum \<Rightarrow> pnum" where
  "pmul (PInt i) (PInt j) = PInt (i * j)"
| "pmul x y = PFloat (val x * val y)"

text \<open>\<^verbatim>\<open>x / y\<close>; \<open>None\<close> is ZeroDivisionError.\<close>

fun pdiv :: "pnum \<Rightarrow> pnum \<Rightarrow> pnum option" where
  "pdiv (PInt i) (PInt j) = (if j = 0 then None else Some (PInt (i div j)))"
| "pdiv x y = (if val y = 0 then None else Some (PFloat (val x / val y)))"

text \<open>\<^verbatim>\<open>isinstance(x, float)\<close>\<close>

fun is_float :: "pnum \<Rightarrow> bool" where
  "is_float (PInt i) = False"
| "is_float (PFloat r) = True"

text \<open>\<^verbatim>\<open>float(x)\<close>\<close>

definition pfloat :: "pnum \<Rightarrow> pnum" where
  "pfloat x = PFloat (val x)"

section \<open>The account\<close>

type_synonym ticker = string

text \<open>
  The dictionary under \<^verbatim>\<open>"options"\<close>\<^verbatim>\<open>["trailing_stop"]\<close>: keys \<^verbatim>\<open>percentage\<close>, \<^verbatim>\<open>points\<close>,
  \<^verbatim>\<open>highest\<close> and \<^verbatim>\<open>quantity\<close> (here \<open>order_quantity\<close>, the holding has a key
  \<^verbatim>\<open>quantity\<close> of its own).
\<close>

record order =
  percentage :: bool
  points :: pnum
  highest :: pnum
  order_quantity :: pnum

text \<open>
  An entry of \<^verbatim>\<open>stocks_owned\<close>. The only key the code ever stores in the \<^verbatim>\<open>"options"\<close>
  dictionary is \<^verbatim>\<open>"trailing_stop"\<close>, so the dictionary is the order, when present.
\<close>

record holding =
  quantity :: pnum
  bought_p :: pnum
  current_p :: pnum
  options :: "order option"

text \<open>
  The fields of \<^verbatim>\<open>Account\<close>. \<^verbatim>\<open>stocks_owned\<close> and \<^verbatim>\<open>original_prices\<close> are iterated over
  (\<^verbatim>\<open>.items()\<close>), so they are association lists, read with \<^const>\<open>map_of\<close> and written with
  \<^const>\<open>AList.update\<close> and \<^const>\<open>AList.delete\<close>; the order of the list stands for the
  iteration order of the dictionary, which Python 2 leaves open. \<^verbatim>\<open>latest_prices\<close> is
  only looked up.
\<close>

record account =
  funds :: pnum
  initial_funds :: pnum
  transactions :: int
  TRANSACTION_FEE :: pnum
  latest_prices :: "ticker \<rightharpoonup> pnum"
  original_prices :: "(ticker \<times> pnum) list"
  stocks_owned :: "(ticker \<times> holding) list"

text \<open>\<^verbatim>\<open>Account.__init__(funds, transaction_fee)\<close>\<close>

definition Account :: "pnum \<Rightarrow> pnum \<Rightarrow> account" where
  "Account funds' transaction_fee =
     \<lparr>funds = funds', initial_funds = funds', transactions = 0,
      TRANSACTION_FEE = transaction_fee, latest_prices = Map.empty,
      original_prices = [], stocks_owned = []\<rparr>"

text \<open>
  How an operation can end other than by returning. The first five are the handlers that
  print a diagnostic and call \<^verbatim>\<open>quit()\<close>, named as the specification names them:
  \<^item> \<open>InsufficientFunds\<close>: the \<^verbatim>\<open>ValueError\<close> handler of \<^verbatim>\<open>buy_stock\<close>, the \<^verbatim>\<open>IndexError\<close>
    handler of \<^verbatim>\<open>trailing_stop\<close>;
  \<^item> \<open>UnknownTicker\<close>: the bare \<^verbatim>\<open>except:\<close> of \<^verbatim>\<open>buy_stock\<close>, which catches every other
    exception raised in its \<^verbatim>\<open>try\<close> block;
  \<^item> \<open>NotOwned\<close>: the \<^verbatim>\<open>KeyError\<close> handler of \<^verbatim>\<open>sell_stock\<close>;
  \<^item> \<open>OversellAttempt\<close>: the \<^verbatim>\<open>ValueError\<close> handler of \<^verbatim>\<open>sell_stock\<close>;
  \<^item> \<open>OrderExceedsHoldings\<close>: the \<^verbatim>\<open>ValueError\<close> handler of \<^verbatim>\<open>trailing_stop\<close>.
  \<open>KeyError\<close> and \<open>ZeroDivisionError\<close> are exceptions that no handler catches: they
  leave the method and reach the caller.
  Every operation returns the outcome together with the account as it is at that moment.
\<close>

datatype failure =
    InsufficientFunds
  | UnknownTicker
  | NotOwned
  | OversellAttempt
  | OrderExceedsHoldings
  | KeyError
  | ZeroDivisionError

type_synonym outcome = "failure option \<times> account"

subsection \<open>\<^verbatim>\<open>buy_stock\<close> (lines 97-132)\<close>

definition buy_stock :: "ticker \<Rightarrow> pnum \<Rightarrow> account \<Rightarrow> outcome" where
  "buy_stock ticker quantity' a =
     (case latest_prices a ticker of
        None \<Rightarrow> (Some UnknownTicker, a)
      | Some price \<Rightarrow>
          let cost = padd (pmul quantity' price) (TRANSACTION_FEE a) in
          if 0 \<le> val (psub (funds a) cost) then
            let a1 = a\<lparr>funds := psub (funds a) cost, transactions := transactions a + 1\<rparr> in
            (case map_of (stocks_owned a) ticker of
               None \<Rightarrow>
                 (None, a1\<lparr>stocks_owned := AList.update ticker
                    \<lparr>quantity = quantity', bought_p = price, current_p = price, options = None\<rparr>
                    (stocks_owned a)\<rparr>)
             | Some h \<Rightarrow>
                 let old_amount = pmul (quantity h) (bought_p h);
                     new_amount = pmul quantity' price
                 in (case pdiv (padd old_amount new_amount) (padd (quantity h) quantity') of
                       None \<Rightarrow> (Some UnknownTicker, a1)
                     | Some d \<Rightarrow>
                         (None, a1\<lparr>stocks_owned := AList.update ticker
                            (h\<lparr>quantity := padd (quantity h) quantity', bought_p := pfloat d\<rparr>)
                            (stocks_owned a)\<rparr>)))
          else (Some InsufficientFunds, a))"

subsection \<open>\<^verbatim>\<open>sell_stock\<close> (lines 134-167)\<close>

text \<open>The \<^verbatim>\<open>quantity\<close> argument is a number or the string \<^verbatim>\<open>"all"\<close>.\<close>

datatype sell_quantity = All | Qty pnum

definition sell_stock :: "ticker \<Rightarrow> sell_quantity \<Rightarrow> account \<Rightarrow> outcome" where
  "sell_stock ticker quantity' a =
     (case map_of (stocks_owned a) ticker of
        None \<Rightarrow> (Some NotOwned, a)
      | Some h \<Rightarrow>
          let q = (case quantity' of All \<Rightarrow> quantity h | Qty n \<Rightarrow> n);
              current_price = current_p h
          in if 0 \<le> val (psub (quantity h) q) then
               let h1 = h\<lparr>quantity := psub (quantity h) q\<rparr> in
               (None, a\<lparr>funds := padd (funds a) (psub (pmul q current_price) (TRANSACTION_FEE a)),
                        stocks_owned :=
                          (if val (quantity h1) = 0 then AList.delete ticker (stocks_owned a)
                           else AList.update ticker h1 (stocks_owned a)),
                        transactions := transactions a + 1\<rparr>)
             else (Some OversellAttempt, a))"

subsection \<open>\<^verbatim>\<open>trailing_stop\<close> (lines 169-216)\<close>

text \<open>
  \<^verbatim>\<open>self.stocks_owned[ticker]\<close> raises \<^verbatim>\<open>KeyError\<close> when the ticker is not held, and the method
  has handlers for \<^verbatim>\<open>ValueError\<close> and \<^verbatim>\<open>IndexError\<close> only. On the \<^verbatim>\<open>ValueError\<close> path the order
  has already been stored. \<^verbatim>\<open>points / 100.0\<close> divides by a float that is not zero.
\<close>

definition trailing_stop :: "ticker \<Rightarrow> pnum \<Rightarrow> pnum \<Rightarrow> bool \<Rightarrow> account \<Rightarrow> outcome" where
  "trailing_stop ticker quantity' points' percentage' a =
     (if 0 \<le> val (psub (funds a) (TRANSACTION_FEE a)) then
        (case map_of (stocks_owned a) ticker of
           None \<Rightarrow> (Some KeyError, a)
         | Some h \<Rightarrow>
             let ord = (case options h of
                          None \<Rightarrow> \<lparr>percentage = percentage', points = points',
                                   highest = current_p h, order_quantity = quantity'\<rparr>
                        | Some old \<Rightarrow> old\<lparr>order_quantity := padd (order_quantity old) quantity',
                                          points := points'\<rparr>);
                 a1 = a\<lparr>stocks_owned :=
                         AList.update ticker (h\<lparr>options := Some ord\<rparr>) (stocks_owned a)\<rparr>
             in if val (order_quantity ord) > val (quantity h) then (Some OrderExceedsHoldings, a1)
                else if percentage' then
                  (None, a\<lparr>stocks_owned :=
                             AList.update ticker
                               (h\<lparr>options := Some (ord\<lparr>points := PFloat (val points' / 100)\<rparr>)\<rparr>)
                               (stocks_owned a)\<rparr>)
                else (None, a1))
      else (Some InsufficientFunds, a))"

subsection \<open>\<^verbatim>\<open>update_trailing_stop\<close> (lines 13-35)\<close>

definition update_trailing_stop :: "account \<Rightarrow> ticker \<Rightarrow> outcome" where
  "update_trailing_stop a ticker =
     (case map_of (stocks_owned a) ticker of
        None \<Rightarrow> (Some KeyError, a)
      | Some h \<Rightarrow>
          (case options h of
             None \<Rightarrow> (Some KeyError, a)
           | Some ord \<Rightarrow>
               let current_price = current_p h in
               if val (highest ord) > val current_price then
                 let bottom_limit =
                       (if percentage ord
                        then psub (highest ord) (pmul (highest ord) (points ord))
                        else psub (highest ord) (points ord))
                 in if val current_price \<le> val bottom_limit then
                      (case sell_stock ticker (Qty (order_quantity ord)) a of
                         (Some e, a') \<Rightarrow> (Some e, a')
                       | (None, a') \<Rightarrow>
                           (None,
                            if map_of (stocks_owned a') ticker \<noteq> None
                            then a'\<lparr>stocks_owned :=
                                      AList.map_entry ticker (\<lambda>h'. h'\<lparr>options := None\<rparr>)
                                        (stocks_owned a')\<rparr>
                            else a'))
                    else (None, a)
               else
                 (None, a\<lparr>stocks_owned :=
                            AList.map_entry ticker
                              (\<lambda>h'. h'\<lparr>options := Some (ord\<lparr>highest := current_price\<rparr>)\<rparr>)
                              (stocks_owned a)\<rparr>)))"

subsection \<open>\<^verbatim>\<open>update\<close> (lines 75-94)\<close>

text \<open>
  The loop runs over the list \<^verbatim>\<open>self.stocks_owned.items()\<close> made before the first iteration
  (a copy in Python 2) and reads and writes the dictionary as it is at each iteration. A
  \<^verbatim>\<open>quit()\<close> inside \<^verbatim>\<open>sell_stock\<close> ends the loop.
\<close>

fun update_loop :: "ticker list \<Rightarrow> account \<Rightarrow> outcome" where
  "update_loop [] a = (None, a)"
| "update_loop (ticker # rest) a =
     (case latest_prices a ticker of
        None \<Rightarrow> update_loop rest a
      | Some p \<Rightarrow>
          (case map_of (stocks_owned a) ticker of
             None \<Rightarrow> (Some KeyError, a)
           | Some h \<Rightarrow>
               let a1 = a\<lparr>stocks_owned :=
                           AList.update ticker (h\<lparr>current_p := p\<rparr>) (stocks_owned a)\<rparr>
               in (case options h of
                     None \<Rightarrow> update_loop rest a1
                   | Some ord \<Rightarrow>
                       (case update_trailing_stop a1 ticker of
                          (Some e, a2) \<Rightarrow> (Some e, a2)
                        | (None, a2) \<Rightarrow> update_loop rest a2))))"

text \<open>Lines 86-94: the new price table, then the loop over the holdings.\<close>

definition update_prices :: "(ticker \<rightharpoonup> pnum) \<Rightarrow> account \<Rightarrow> outcome" where
  "update_prices latest_prices' a =
     update_loop (map fst (stocks_owned a)) (a\<lparr>latest_prices := latest_prices'\<rparr>)"

text \<open>
  Lines 83-84 first: \<^verbatim>\<open>latest_prices[ticker]\<close> raises \<^verbatim>\<open>KeyError\<close> when the ticker passed as
  second argument is new to \<^verbatim>\<open>original_prices\<close> and absent from the snapshot.
\<close>

definition update :: "(ticker \<rightharpoonup> pnum) \<Rightarrow> ticker \<Rightarrow> account \<Rightarrow> outcome" where
  "update latest_prices' ticker a =
     (if map_of (original_prices a) ticker = None then
        (case latest_prices' ticker of
           None \<Rightarrow> (Some KeyError, a)
         | Some p \<Rightarrow>
             update_prices latest_prices'
               (a\<lparr>original_prices := AList.update ticker p (original_prices a)\<rparr>))
      else update_prices latest_prices' a)"

subsection \<open>\<^verbatim>\<open>sell_all\<close> (lines 218-225)\<close>

fun sell_all_loop :: "ticker list \<Rightarrow> account \<Rightarrow> outcome" where
  "sell_all_loop [] a = (None, a)"
| "sell_all_loop (ticker # rest) a =
     (case map_of (stocks_owned a) ticker of
        None \<Rightarrow> (Some KeyError, a)
      | Some h \<Rightarrow>
          sell_all_loop rest
            (a\<lparr>funds := padd (funds a)
                          (psub (pmul (quantity h) (current_p h)) (TRANSACTION_FEE a)),
               transactions := transactions a + 1,
               stocks_owned := AList.delete ticker (stocks_owned a)\<rparr>))"

definition sell_all :: "account \<Rightarrow> outcome" where
  "sell_all a = sell_all_loop (map fst (stocks_owned a)) a"

subsection \<open>\<^verbatim>\<open>value\<close> and \<^verbatim>\<open>report\<close> (lines 227-285)\<close>

text \<open>
  Neither method assigns to a field of the account, so each is a function of the account
  with no resulting state. \<^verbatim>\<open>report\<close> returns a string; the model returns the numbers the
  string is formatted from (and the local \<^verbatim>\<open>account_worth\<close>), not their formatting.
\<close>

definition value_owned :: "account \<Rightarrow> pnum" where
  "value_owned a =
     fold (\<lambda>(stock, info) total_value. padd total_value (pmul (quantity info) (current_p info)))
       (stocks_owned a) (PInt 0)"

record figures =
  account_worth :: pnum
  profit :: pnum
  profit_percentage :: pnum
  market_return :: pnum
  stocks_held :: "(ticker \<times> pnum \<times> pnum \<times> pnum) list"
  number_of_transactions :: int

fun market_loop ::
  "(ticker \<times> pnum) list \<Rightarrow> (ticker \<rightharpoonup> pnum) \<Rightarrow> pnum \<times> pnum \<Rightarrow> failure + pnum \<times> pnum" where
  "market_loop [] latest (total_price, total_return) = Inr (total_price, total_return)"
| "market_loop ((stock, price) # rest) latest (total_price, total_return) =
     (case latest stock of
        None \<Rightarrow> Inl KeyError
      | Some l \<Rightarrow> market_loop rest latest (padd total_price price, padd total_return (psub l price)))"

fun held_loop :: "(ticker \<times> holding) list \<Rightarrow> failure + (ticker \<times> pnum \<times> pnum \<times> pnum) list" where
  "held_loop [] = Inr []"
| "held_loop ((stock, info) # rest) =
     (case pdiv (psub (current_p info) (bought_p info)) (bought_p info) of
        None \<Rightarrow> Inl ZeroDivisionError
      | Some d \<Rightarrow>
          (case held_loop rest of
             Inl e \<Rightarrow> Inl e
           | Inr ls \<Rightarrow> Inr ((stock, quantity info, bought_p info, pfloat d) # ls)))"

definition report :: "bool \<Rightarrow> account \<Rightarrow> failure + figures" where
  "report verbose a =
     (let worth = padd (funds a) (value_owned a);
          profit' = psub worth (initial_funds a)
      in case pdiv profit' (initial_funds a) of
           None \<Rightarrow> Inl ZeroDivisionError
         | Some d \<Rightarrow>
             (case market_loop (original_prices a) (latest_prices a) (PInt 0, PInt 0) of
                Inl e \<Rightarrow> Inl e
              | Inr (total_price, total_return) \<Rightarrow>
                  (case pdiv total_return total_price of
                     None \<Rightarrow> Inl ZeroDivisionError
                   | Some m \<Rightarrow>
                       (case (if verbose then held_loop (stocks_owned a) else Inr []) of
                          Inl e \<Rightarrow> Inl e
                        | Inr ls \<Rightarrow>
                            Inr \<lparr>account_worth = worth, profit = profit',
                                 profit_percentage = pfloat d, market_return = pfloat m,
                                 stocks_held = ls,
                                 number_of_transactions = transactions a\<rparr>))))"

subsection \<open>Sequences of calls\<close>

text \<open>
  A caller drives one account through a sequence of method calls. \<open>run\<close> keeps the
  account as each call leaves it, whatever the outcome: an exception that reaches the
  caller (and \<^verbatim>\<open>SystemExit\<close> is one) can be caught, and the object is then still in use.
\<close>

datatype operation =
    Update "ticker \<rightharpoonup> pnum" ticker
  | Buy ticker pnum
  | Sell ticker sell_quantity
  | TrailingStop ticker pnum pnum bool
  | SellAll

fun exec :: "operation \<Rightarrow> account \<Rightarrow> outcome" where
  "exec (Update latest ticker) a = update latest ticker a"
| "exec (Buy ticker n) a = buy_stock ticker n a"
| "exec (Sell ticker n) a = sell_stock ticker n a"
| "exec (TrailingStop ticker n pts pct) a = trailing_stop ticker n pts pct a"
| "exec SellAll a = sell_all a"

fun run :: "operation list \<Rightarrow> account \<Rightarrow> account" where
  "run [] a = a"
| "run (c # cs) a = run cs (snd (exec c a))"

section \<open>What the properties observe\<close>


text \<open>The watermark of the trailing stop on a ticker, when the ticker is held with one.\<close>

definition watermark :: "account \<Rightarrow> ticker \<Rightarrow> rat option" where
  "watermark a ticker =
     (case map_of (stocks_owned a) ticker of
        None \<Rightarrow> None
      | Some h \<Rightarrow> (case options h of None \<Rightarrow> None | Some ord \<Rightarrow> Some (val (highest ord))))"

text \<open>Every entry of \<^verbatim>\<open>stocks_owned\<close> has a strictly positive quantity.\<close>

definition positive_entries :: "(ticker \<times> holding) list \<Rightarrow> bool" where
  "positive_entries xs \<longleftrightarrow> (\<forall>(ticker, h) \<in> set xs. 0 < val (quantity h))"

definition positive_holdings :: "account \<Rightarrow> bool" where
  "positive_holdings a \<longleftrightarrow> positive_entries (stocks_owned a)"

text \<open>A call that, if it is a buy, is a buy of a strictly positive quantity.\<close>

fun positive_buy :: "operation \<Rightarrow> bool" where
  "positive_buy (Buy ticker n) = (0 < val n)"
| "positive_buy c = True"

text \<open>
  The volume-weighted mean of a list of fills (quantity, price), in the words of the
  specification: the quantity-weighted sum of the prices over the sum of the quantities.
\<close>

definition volume_weighted_mean :: "(rat \<times> rat) list \<Rightarrow> rat" where
  "volume_weighted_mean fills = (\<Sum>(q, p)\<leftarrow>fills. q * p) / (\<Sum>(q, p)\<leftarrow>fills. q)"

subsection \<open>Example accounts\<close>

text \<open>
  The holding of the specification's liquidation example: five AAPL at a current price of
  150, with a fee of 6.99.
\<close>

definition aapl_account :: account where
  "aapl_account =
     run [Update [''AAPL'' \<mapsto> PInt 150, ''MSFT'' \<mapsto> PInt 30] ''AAPL'', Buy ''AAPL'' (PInt 5)]
       (Account (PInt 10000) (PFloat (699 / 100)))"

text \<open>
  The specification's percentage example (distance 10 percent, prices 50, 60 and then 53):
  ten shares bought at 50, the order placed, the price risen to 60.
\<close>

definition percent_account :: account where
  "percent_account =
     run [Update [''A'' \<mapsto> PInt 50] ''A'', Buy ''A'' (PInt 10),
          TrailingStop ''A'' (PInt 10) (PInt 10) True, Update [''A'' \<mapsto> PInt 60] ''A'']
       (Account (PInt 1000) (PFloat (699 / 100)))"

text \<open>
  The same account inside \<^verbatim>\<open>update({"A": 53}, "A")\<close>, at the call of
  \<^verbatim>\<open>update_trailing_stop\<close>: the price table and \<^verbatim>\<open>current_p\<close> are already written.
\<close>

definition percent_tick :: account where
  "percent_tick =
     \<lparr>funds = PFloat (49301 / 100), initial_funds = PInt 1000, transactions = 1,
      TRANSACTION_FEE = PFloat (699 / 100), latest_prices = [''A'' \<mapsto> PInt 53],
      original_prices = [(''A'', PInt 50)],
      stocks_owned =
        [(''A'', \<lparr>quantity = PInt 10, bought_p = PInt 50, current_p = PInt 53,
                  options = Some \<lparr>percentage = True, points = PFloat (1 / 10),
                                   highest = PInt 60, order_quantity = PInt 10\<rparr>\<rparr>)]\<rparr>"


text \<open>A buy of zero shares on a fresh account.\<close>

definition zero_buy_account :: account where
  "zero_buy_account =
     run [Update [''A'' \<mapsto> PInt 10] ''A'', Buy ''A'' (PInt 0)] (Account (PInt 100) (PInt 1))"

text \<open>One share bought at 10 and one at 11, all prices being \<^verbatim>\<open>int\<close>s.\<close>

definition int_average_account :: account where
  "int_average_account =
     run [Update [''A'' \<mapsto> PInt 10] ''A'', Buy ''A'' (PInt 1),
          Update [''A'' \<mapsto> PInt 11] ''A'', Buy ''A'' (PInt 1)]
       (Account (PInt 1000) (PFloat (699 / 100)))"

text \<open>\<^verbatim>\<open>Account(1000, 7)\<close> after one share bought at 10: every number is an \<^verbatim>\<open>int\<close>.\<close>

definition int_report_account :: account where
  "int_report_account =
     run [Update [''A'' \<mapsto> PInt 10] ''A'', Buy ''A'' (PInt 1)] (Account (PInt 1000) (PInt 7))"

section \<open>Arithmetic of the numbers\<close>

lemma val_padd [simp]: "val (padd x y) = val x + val y"
  by (cases x; cases y) simp_all

lemma val_psub [simp]: "val (psub x y) = val x - val y"
  by (cases x; cases y) simp_all

lemma val_pmul [simp]: "val (pmul x y) = val x * val y"
  by (cases x; cases y) simp_all

lemma val_pfloat [simp]: "val (pfloat x) = val x"
  by (simp add: pfloat_def)


lemmas model_defs =
  Account_def update_def update_prices_def buy_stock_def sell_stock_def trailing_stop_def
  update_trailing_stop_def sell_all_def pfloat_def Let_def

section \<open>Dictionaries as association lists\<close>


lemma positive_entries_update:
  "positive_entries xs \<Longrightarrow> 0 < val (quantity h) \<Longrightarrow> positive_entries (AList.update k h xs)"
  by (induction xs) (auto simp add: positive_entries_def)

lemma positive_entries_delete: "positive_entries xs \<Longrightarrow> positive_entries (AList.delete k xs)"
  by (induction xs) (auto simp add: positive_entries_def)

lemma positive_entries_map_entry:
  "positive_entries xs \<Longrightarrow> (\<And>h. quantity (f h) = quantity h) \<Longrightarrow>
   positive_entries (AList.map_entry k f xs)"
  by (induction xs) (auto simp add: positive_entries_def)

lemma positive_entries_lookup:
  "positive_entries xs \<Longrightarrow> map_of xs k = Some h \<Longrightarrow> 0 < val (quantity h)"
  by (auto simp add: positive_entries_def dest: map_of_SomeD)

section \<open>Selling\<close>

lemma sell_stock_other:
  "k \<noteq> t \<Longrightarrow> map_of (stocks_owned (snd (sell_stock t q a))) k = map_of (stocks_owned a) k"
  by (simp add: sell_stock_def Let_def AList.update_conv' AList.delete_conv' split: option.splits)

lemma sell_stock_same:
  "map_of (stocks_owned (snd (sell_stock t q a))) t = Some h' \<Longrightarrow>
   \<exists>h. map_of (stocks_owned a) t = Some h \<and> options h' = options h
        \<and> current_p h' = current_p h \<and> bought_p h' = bought_p h"
  by (auto simp add: sell_stock_def Let_def AList.update_conv' AList.delete_conv'
        split: option.splits if_splits)

lemma positive_entries_sell_stock:
  "positive_entries (stocks_owned a) \<Longrightarrow> positive_entries (stocks_owned (snd (sell_stock t q a)))"
  by (auto simp add: sell_stock_def Let_def
        intro!: positive_entries_update positive_entries_delete split: option.splits)

lemma original_prices_sell_stock [simp]:
  "original_prices (snd (sell_stock t q a)) = original_prices a"
  by (simp add: sell_stock_def Let_def split: option.splits)

section \<open>Buying and immediately selling\<close>



section \<open>Failures of a buy\<close>




section \<open>Each ticker is a key once\<close>

text \<open>
  \<^verbatim>\<open>stocks_owned\<close> is a dictionary: in every account that a sequence of calls makes from a
  fresh one, no ticker is listed twice.
\<close>

lemma distinct_buy_stock:
  "distinct (map fst (stocks_owned a)) \<Longrightarrow> distinct (map fst (stocks_owned (snd (buy_stock t n a))))"
  by (auto simp add: buy_stock_def Let_def AList.distinct_update split: option.splits)

lemma distinct_sell_stock:
  "distinct (map fst (stocks_owned a)) \<Longrightarrow> distinct (map fst (stocks_owned (snd (sell_stock t q a))))"
  by (auto simp add: sell_stock_def Let_def AList.distinct_update AList.distinct_delete
        split: option.splits)

lemma distinct_trailing_stop:
  "distinct (map fst (stocks_owned a)) \<Longrightarrow>
   distinct (map fst (stocks_owned (snd (trailing_stop t n pts pct a))))"
  by (auto simp add: trailing_stop_def Let_def AList.distinct_update split: option.splits)

lemma distinct_update_trailing_stop:
  "distinct (map fst (stocks_owned a)) \<Longrightarrow>
   distinct (map fst (stocks_owned (snd (update_trailing_stop a t))))"
proof -
  assume d: "distinct (map fst (stocks_owned a))"
  have s: "\<And>q r a'. sell_stock t q a = (r, a') \<Longrightarrow> distinct (map fst (stocks_owned a'))"
    using distinct_sell_stock[OF d, of t] by (metis snd_conv)
  show ?thesis
    using d
    by (auto simp add: update_trailing_stop_def Let_def intro!: distinct_map_entry
          dest: s split: option.splits prod.splits)
qed

lemma distinct_update_loop:
  "distinct (map fst (stocks_owned a)) \<Longrightarrow> distinct (map fst (stocks_owned (snd (update_loop ks a))))"
proof (induction ks arbitrary: a)
  case Nil
  then show ?case by simp
next
  case (Cons t ks)
  show ?case
  proof (cases "latest_prices a t")
    case None
    with Cons show ?thesis by simp
  next
    case (Some p)
    note p = this
    show ?thesis
    proof (cases "map_of (stocks_owned a) t")
      case None
      with p Cons.prems show ?thesis by simp
    next
      case (Some h)
      let ?a1 = "a\<lparr>stocks_owned := AList.update t (h\<lparr>current_p := p\<rparr>) (stocks_owned a)\<rparr>"
      have a1: "distinct (map fst (stocks_owned ?a1))"
        using Cons.prems by (simp add: AList.distinct_update)
      have a2: "distinct (map fst (stocks_owned (snd (update_trailing_stop ?a1 t))))"
        using a1 by (rule distinct_update_trailing_stop)
      show ?thesis
        using p Some a1 a2 Cons.IH
        by (auto simp add: Let_def split: option.splits prod.splits)
    qed
  qed
qed

lemma distinct_update_call:
  "distinct (map fst (stocks_owned a)) \<Longrightarrow> distinct (map fst (stocks_owned (snd (update latest t a))))"
  by (auto simp add: update_def update_prices_def intro!: distinct_update_loop
        split: option.splits)

lemma distinct_sell_all_loop:
  "distinct (map fst (stocks_owned a)) \<Longrightarrow> distinct (map fst (stocks_owned (snd (sell_all_loop ks a))))"
proof (induction ks arbitrary: a)
  case Nil
  then show ?case by simp
next
  case (Cons t ks)
  then show ?case
    by (auto simp add: AList.distinct_delete split: option.splits)
qed

lemma distinct_exec:
  "distinct (map fst (stocks_owned a)) \<Longrightarrow> distinct (map fst (stocks_owned (snd (exec c a))))"
  by (cases c)
     (simp_all add: distinct_update_call distinct_buy_stock distinct_sell_stock
        distinct_trailing_stop distinct_sell_all_loop sell_all_def)

lemma distinct_run:
  "distinct (map fst (stocks_owned a)) \<Longrightarrow> distinct (map fst (stocks_owned (run cs a)))"
  by (induction cs arbitrary: a) (simp_all add: distinct_exec)

lemma distinct_reachable: "distinct (map fst (stocks_owned (run cs (Account f fee))))"
  by (rule distinct_run) (simp add: Account_def)

section \<open>Liquidation\<close>


lemma positive_entries_sell_all_loop:
  "positive_entries (stocks_owned a) \<Longrightarrow> positive_entries (stocks_owned (snd (sell_all_loop ks a)))"
proof (induction ks arbitrary: a)
  case Nil
  then show ?case by simp
next
  case (Cons t ks)
  then show ?case
    by (auto simp add: positive_entries_delete split: option.splits)
qed

lemma original_prices_sell_all_loop [simp]:
  "original_prices (snd (sell_all_loop ks a)) = original_prices a"
  by (induction ks arbitrary: a) (auto split: option.splits)



section \<open>Evaluation of a trailing stop\<close>

lemma percent_tick_reached:
  "update [''A'' \<mapsto> PInt 53] ''A'' percent_account = update_trailing_stop percent_tick ''A''"
  by (simp add: percent_account_def percent_tick_def model_defs)







section \<open>The watermark\<close>

lemma watermark_sell_stock:
  "watermark (snd (sell_stock t q a)) k = Some w \<Longrightarrow> watermark a k = Some w"
proof (cases "k = t")
  case True
  assume w: "watermark (snd (sell_stock t q a)) k = Some w"
  then obtain h' where h': "map_of (stocks_owned (snd (sell_stock t q a))) t = Some h'"
    using True by (auto simp: watermark_def split: option.splits)
  from sell_stock_same[OF h'] obtain h where
    "map_of (stocks_owned a) t = Some h" "options h' = options h" by blast
  with w h' True show ?thesis by (simp add: watermark_def)
next
  case False
  assume "watermark (snd (sell_stock t q a)) k = Some w"
  with sell_stock_other[OF False, of q a] show ?thesis
    by (simp add: watermark_def)
qed

lemma watermark_update_trailing_stop:
  assumes "watermark (snd (update_trailing_stop a t)) k = Some w'"
  shows "\<exists>w. watermark a k = Some w \<and> w \<le> w'"
proof (cases "map_of (stocks_owned a) t")
  case None
  with assms show ?thesis by (simp add: update_trailing_stop_def)
next
  case (Some h)
  note h = this
  show ?thesis
  proof (cases "options h")
    case None
    with h assms show ?thesis by (simp add: update_trailing_stop_def)
  next
    case (Some ord)
    note ord = this
    show ?thesis
    proof (cases "val (current_p h) < val (highest ord)")
      case False
      with assms h ord show ?thesis
        by (auto simp add: update_trailing_stop_def watermark_def map_of_map_entry
              split: if_splits option.splits)
    next
      case True
      let ?s = "sell_stock t (Qty (order_quantity ord)) a"
      obtain r a' where s: "?s = (r, a')" by (cases ?s)
      have sold: "watermark a' k = Some w' \<Longrightarrow> ?thesis"
        using watermark_sell_stock[of t "Qty (order_quantity ord)" a k w'] s by auto
      have dropped:
        "watermark (a'\<lparr>stocks_owned := AList.map_entry t (\<lambda>h'. h'\<lparr>options := None\<rparr>)
                        (stocks_owned a')\<rparr>) k = Some w' \<Longrightarrow> watermark a' k = Some w'"
        by (auto simp add: watermark_def map_of_map_entry split: option.splits if_splits)
      from assms h ord True s show ?thesis
        using sold dropped
        by (cases r) (auto simp add: update_trailing_stop_def split: if_splits)
    qed
  qed
qed

lemma watermark_current_p:
  "map_of (stocks_owned a) t = Some h \<Longrightarrow>
   watermark (a\<lparr>stocks_owned := AList.update t (h\<lparr>current_p := p\<rparr>) (stocks_owned a)\<rparr>) k
     = watermark a k"
  by (simp add: watermark_def AList.update_conv')

lemma watermark_update_loop:
  "watermark (snd (update_loop ks a)) k = Some w' \<Longrightarrow> \<exists>w. watermark a k = Some w \<and> w \<le> w'"
proof (induction ks arbitrary: a w')
  case Nil
  then show ?case by simp
next
  case (Cons t ks)
  show ?case
  proof (cases "latest_prices a t")
    case None
    with Cons show ?thesis by simp
  next
    case (Some p)
    note p = this
    show ?thesis
    proof (cases "map_of (stocks_owned a) t")
      case None
      with p Cons.prems show ?thesis by simp
    next
      case (Some h)
      note h = this
      let ?a1 = "a\<lparr>stocks_owned := AList.update t (h\<lparr>current_p := p\<rparr>) (stocks_owned a)\<rparr>"
      have a1: "watermark ?a1 k = watermark a k" using h by (rule watermark_current_p)
      show ?thesis
      proof (cases "options h")
        case None
        with p h Cons.prems have "watermark (snd (update_loop ks ?a1)) k = Some w'" by simp
        from Cons.IH[OF this] a1 show ?thesis by simp
      next
        case (Some ord)
        note ord = this
        obtain r a2 where u: "update_trailing_stop ?a1 t = (r, a2)"
          by (cases "update_trailing_stop ?a1 t")
        have step: "\<And>v. watermark a2 k = Some v \<Longrightarrow> \<exists>w. watermark a k = Some w \<and> w \<le> v"
          using watermark_update_trailing_stop[of ?a1 t k] u a1 by simp
        show ?thesis
        proof (cases r)
          case None
          with p h ord u Cons.prems have "watermark (snd (update_loop ks a2)) k = Some w'"
            by simp
          from Cons.IH[OF this] obtain v where v: "watermark a2 k = Some v" "v \<le> w'" by blast
          from step[OF v(1)] v(2) show ?thesis by force
        next
          case (Some e)
          with p h ord u Cons.prems have "watermark a2 k = Some w'" by simp
          from step[OF this] show ?thesis .
        qed
      qed
    qed
  qed
qed

lemma watermark_update_prices:
  "watermark (snd (update_prices latest a)) k = Some w' \<Longrightarrow> \<exists>w. watermark a k = Some w \<and> w \<le> w'"
  using watermark_update_loop[of "map fst (stocks_owned a)" "a\<lparr>latest_prices := latest\<rparr>" k w']
  by (simp add: update_prices_def watermark_def)

lemma watermark_update:
  "watermark (snd (update latest t a)) k = Some w' \<Longrightarrow> \<exists>w. watermark a k = Some w \<and> w \<le> w'"
  using watermark_update_prices[of latest a k w']
    watermark_update_prices[of latest
      "a\<lparr>original_prices := AList.update t (the (latest t)) (original_prices a)\<rparr>" k w']
  by (auto simp add: update_def watermark_def split: if_splits option.splits)

lemma watermark_updates:
  "watermark (run (map (\<lambda>(latest, t). Update latest t) us) a) k = Some w' \<Longrightarrow>
   \<exists>w. watermark a k = Some w \<and> w \<le> w'"
proof (induction us arbitrary: a)
  case Nil
  then show ?case by simp
next
  case (Cons u us)
  obtain latest t where u: "u = (latest, t)" by (cases u)
  from Cons.prems u
  have "watermark (run (map (\<lambda>(latest, t). Update latest t) us) (snd (update latest t a))) k
          = Some w'"
    by simp
  from Cons.IH[OF this] obtain v where v: "watermark (snd (update latest t a)) k = Some v" "v \<le> w'"
    by blast
  from watermark_update[OF v(1)] v(2) show ?case by force
qed

lemma watermark_evaluation:
  assumes "map_of (stocks_owned a) k = Some h" and "options h = Some ord"
  shows "if val (highest ord) \<le> val (current_p h)
         then watermark (snd (update_trailing_stop a k)) k = Some (val (current_p h))
         else watermark (snd (update_trailing_stop a k)) k = Some (val (highest ord))
              \<or> watermark (snd (update_trailing_stop a k)) k = None"
proof (cases "val (highest ord) \<le> val (current_p h)")
  case True
  with assms show ?thesis
    by (simp add: update_trailing_stop_def watermark_def map_of_map_entry)
next
  case False
  have "watermark a k = Some (val (highest ord))"
    using assms by (simp add: watermark_def)
  moreover have "\<And>w'. watermark (snd (update_trailing_stop a k)) k = Some w' \<Longrightarrow>
      watermark a k = Some w'"
  proof -
    fix w' assume w': "watermark (snd (update_trailing_stop a k)) k = Some w'"
    let ?s = "sell_stock k (Qty (order_quantity ord)) a"
    obtain r a' where s: "?s = (r, a')" by (cases ?s)
    have sold: "watermark a' k = Some w' \<Longrightarrow> watermark a k = Some w'"
      using watermark_sell_stock[of k "Qty (order_quantity ord)" a k w'] s by auto
    from w' assms False s sold show "watermark a k = Some w'"
      by (cases r)
         (auto simp add: update_trailing_stop_def watermark_def map_of_map_entry
            split: if_splits option.splits)
  qed
  ultimately show ?thesis
    using False by (cases "watermark (snd (update_trailing_stop a k)) k") auto
qed

text \<open>
  Claim C2. Over any sequence of \<^verbatim>\<open>update\<close> calls, a trailing stop that is on a ticker at
  the end was on it at the start, with a watermark that is not greater. And one evaluation
  of the order leaves the watermark at the current price when the current price is at
  least the watermark, and otherwise leaves it as it was, unless the order is executed and
  is no longer there.
\<close>

theorem watermark_never_decreases:
  "(\<forall>w'. watermark (run (map (\<lambda>(latest, t). Update latest t) us) a) k = Some w' \<longrightarrow>
          (\<exists>w. watermark a k = Some w \<and> w \<le> w'))
   \<and> (\<forall>h ord. map_of (stocks_owned a) k = Some h \<and> options h = Some ord \<longrightarrow>
          (if val (highest ord) \<le> val (current_p h)
           then watermark (snd (update_trailing_stop a k)) k = Some (val (current_p h))
           else watermark (snd (update_trailing_stop a k)) k = Some (val (highest ord))
                \<or> watermark (snd (update_trailing_stop a k)) k = None))"
  using watermark_updates[of us a k] watermark_evaluation[of a k] by blast

theorem watermark_never_decreases_witness:
  "watermark percent_account ''A'' = Some 60
   \<and> watermark (run (map (\<lambda>(latest, t). Update latest t)
                   [([''A'' \<mapsto> PInt 58], ''A''), ([''A'' \<mapsto> PInt 65], ''A'')])
                 percent_account) ''A'' = Some 65
   \<and> (\<exists>w. watermark percent_account ''A'' = Some w \<and> w \<le> 65)"
  using watermark_never_decreases
    [of "[([''A'' \<mapsto> PInt 58], ''A''), ([''A'' \<mapsto> PInt 65], ''A'')]"
        percent_account "''A''"]
  by (simp add: percent_account_def model_defs watermark_def)

section \<open>The original prices\<close>

lemma original_prices_buy_stock [simp]:
  "original_prices (snd (buy_stock t n a)) = original_prices a"
  by (simp add: buy_stock_def Let_def split: option.splits)

lemma original_prices_trailing_stop [simp]:
  "original_prices (snd (trailing_stop t n pts pct a)) = original_prices a"
  by (simp add: trailing_stop_def Let_def split: option.splits)

lemma original_prices_update_trailing_stop [simp]:
  "original_prices (snd (update_trailing_stop a t)) = original_prices a"
  by (simp add: update_trailing_stop_def Let_def case_prod_unfold split: option.splits)

lemma original_prices_update_trailing_stopD:
  "update_trailing_stop b t = (r, b') \<Longrightarrow> original_prices b' = original_prices b"
  using original_prices_update_trailing_stop[of b t] by simp

lemma original_prices_update_loop [simp]:
  "original_prices (snd (update_loop ks a)) = original_prices a"
proof (induction ks arbitrary: a)
  case Nil
  show ?case by simp
next
  case (Cons t ks)
  show ?case
    using Cons.IH
    by (auto simp add: Let_def dest!: original_prices_update_trailing_stopD
          split: option.splits prod.splits)
qed

lemma original_prices_update:
  "original_prices (snd (update latest t a)) =
     (if map_of (original_prices a) t = None
      then (case latest t of None \<Rightarrow> original_prices a
            | Some p \<Rightarrow> AList.update t p (original_prices a))
      else original_prices a)"
  by (simp add: update_def update_prices_def split: option.splits)

lemma original_prices_exec:
  "map_of (original_prices (snd (exec c a))) k \<noteq> map_of (original_prices a) k \<Longrightarrow>
   \<exists>latest p. c = Update latest k \<and> map_of (original_prices a) k = None \<and> latest k = Some p
      \<and> map_of (original_prices (snd (exec c a))) k = Some p"
  by (cases c)
     (auto simp add: original_prices_update sell_all_def AList.update_conv'
        split: if_splits option.splits)

lemma original_prices_run:
  "map_of (original_prices a) k = Some p \<Longrightarrow> map_of (original_prices (run cs a)) k = Some p"
proof (induction cs arbitrary: a)
  case Nil
  then show ?case by simp
next
  case (Cons c cs)
  have "map_of (original_prices (snd (exec c a))) k = Some p"
    using original_prices_exec[of c a k] Cons.prems by fastforce
  from Cons.IH[OF this] show ?case by simp
qed

text \<open>
  Claim C7, as stated, fails: the entry is not written by the first update whose snapshot
  includes the ticker, but only for the ticker passed as second argument. The first update
  of a fresh account, with a snapshot holding both A and B and the ticker argument A,
  leaves \<^verbatim>\<open>original_prices\<close> without an entry for B.
\<close>

theorem original_prices_snapshot_counterexample:
  "[''A'' \<mapsto> PInt 1, ''B'' \<mapsto> PInt 2] ''B'' = Some (PInt 2)
   \<and> original_prices (Account (PInt 1000) (PFloat (699 / 100))) = []
   \<and> fst (update [''A'' \<mapsto> PInt 1, ''B'' \<mapsto> PInt 2] ''A''
            (Account (PInt 1000) (PFloat (699 / 100)))) = None
   \<and> map_of (original_prices (snd (update [''A'' \<mapsto> PInt 1, ''B'' \<mapsto> PInt 2] ''A''
               (Account (PInt 1000) (PFloat (699 / 100)))))) ''B'' = None"
  by (simp add: model_defs)

text \<open>
  Claim C7, amended: the entry of a ticker is set by the first update whose ticker argument
  it is (and whose snapshot includes it), from that snapshot.
  \<^item> A call changes the entry of a ticker \<open>k\<close> only if it is an update with ticker
    argument \<open>k\<close>, made when \<open>k\<close> has no entry, with a snapshot that has a price for
    \<open>k\<close>; the entry is then that price.
  \<^item> Such an update does set the entry.
  \<^item> An entry, once there, is the same after any sequence of calls.
\<close>

theorem original_prices_written_once:
  "(map_of (original_prices (snd (exec c a))) k \<noteq> map_of (original_prices a) k \<longrightarrow>
      (\<exists>latest p. c = Update latest k \<and> map_of (original_prices a) k = None
         \<and> latest k = Some p \<and> map_of (original_prices (snd (exec c a))) k = Some p))
   \<and> (map_of (original_prices a) k = None \<and> snapshot k = Some p \<longrightarrow>
        map_of (original_prices (snd (update snapshot k a))) k = Some p)
   \<and> (map_of (original_prices a) k = Some p' \<longrightarrow>
        map_of (original_prices (run cs a)) k = Some p')"
  using original_prices_exec[of c a k] original_prices_run[of a k p' cs]
  by (auto simp add: original_prices_update AList.update_conv')

theorem original_prices_written_once_witness:
  "map_of (original_prices (Account (PInt 1000) (PFloat (699 / 100)))) ''A'' = None
   \<and> map_of (original_prices (snd (update [''A'' \<mapsto> PInt 50] ''A''
               (Account (PInt 1000) (PFloat (699 / 100)))))) ''A'' = Some (PInt 50)
   \<and> map_of (original_prices percent_account) ''A'' = Some (PInt 50)
   \<and> map_of (original_prices
        (run [Update [''A'' \<mapsto> PInt 53] ''A'', SellAll] percent_account)) ''A'' = Some (PInt 50)"
  using original_prices_written_once
    [of "Update [''A'' \<mapsto> PInt 50] ''A''" "Account (PInt 1000) (PFloat (699 / 100))" "''A''"
        "[''A'' \<mapsto> PInt 50]" "PInt 50" "PInt 50" "[]"]
    original_prices_written_once
    [of "Update [''A'' \<mapsto> PInt 53] ''A''" percent_account "''A''"
        "[''A'' \<mapsto> PInt 53]" "PInt 53" "PInt 50" "[Update [''A'' \<mapsto> PInt 53] ''A'', SellAll]"]
  by (simp add: percent_account_def model_defs)

section \<open>Holdings of positive quantity\<close>

lemma positive_entries_buy_stock:
  "positive_entries (stocks_owned a) \<Longrightarrow> 0 < val n \<Longrightarrow>
   positive_entries (stocks_owned (snd (buy_stock t n a)))"
  by (auto simp add: buy_stock_def Let_def intro!: positive_entries_update
        dest: positive_entries_lookup split: option.splits)

lemma positive_entries_trailing_stop:
  "positive_entries (stocks_owned a) \<Longrightarrow>
   positive_entries (stocks_owned (snd (trailing_stop t n pts pct a)))"
  by (auto simp add: trailing_stop_def Let_def intro!: positive_entries_update
        dest: positive_entries_lookup split: option.splits)

lemma positive_entries_update_trailing_stop:
  "positive_entries (stocks_owned a) \<Longrightarrow>
   positive_entries (stocks_owned (snd (update_trailing_stop a t)))"
proof -
  assume p: "positive_entries (stocks_owned a)"
  have s: "\<And>q r a'. sell_stock t q a = (r, a') \<Longrightarrow> positive_entries (stocks_owned a')"
    using positive_entries_sell_stock[OF p, of t] by (metis snd_conv)
  show ?thesis
    using p
    by (auto simp add: update_trailing_stop_def Let_def intro!: positive_entries_map_entry
          dest: s split: option.splits prod.splits)
qed

lemma positive_entries_update_loop:
  "positive_entries (stocks_owned a) \<Longrightarrow> positive_entries (stocks_owned (snd (update_loop ks a)))"
proof (induction ks arbitrary: a)
  case Nil
  then show ?case by simp
next
  case (Cons t ks)
  show ?case
  proof (cases "latest_prices a t")
    case None
    with Cons show ?thesis by simp
  next
    case (Some p)
    note p = this
    show ?thesis
    proof (cases "map_of (stocks_owned a) t")
      case None
      with p Cons.prems show ?thesis by simp
    next
      case (Some h)
      let ?a1 = "a\<lparr>stocks_owned := AList.update t (h\<lparr>current_p := p\<rparr>) (stocks_owned a)\<rparr>"
      have a1: "positive_entries (stocks_owned ?a1)"
        using Cons.prems Some
        by (auto intro!: positive_entries_update dest: positive_entries_lookup)
      have a2: "positive_entries (stocks_owned (snd (update_trailing_stop ?a1 t)))"
        using a1 by (rule positive_entries_update_trailing_stop)
      show ?thesis
        using p Some a1 a2 Cons.IH
        by (auto simp add: Let_def split: option.splits prod.splits)
    qed
  qed
qed

lemma positive_entries_update_call:
  "positive_entries (stocks_owned a) \<Longrightarrow> positive_entries (stocks_owned (snd (update latest t a)))"
  by (auto simp add: update_def update_prices_def intro!: positive_entries_update_loop
        split: option.splits)

lemma positive_holdings_exec:
  "positive_holdings a \<Longrightarrow> positive_buy c \<Longrightarrow> positive_holdings (snd (exec c a))"
  unfolding positive_holdings_def
  by (cases c)
     (simp_all add: positive_entries_update_call positive_entries_buy_stock
        positive_entries_sell_stock positive_entries_trailing_stop
        positive_entries_sell_all_loop sell_all_def)

lemma positive_holdings_run:
  "positive_holdings a \<Longrightarrow> list_all positive_buy cs \<Longrightarrow> positive_holdings (run cs a)"
  by (induction cs arbitrary: a) (simp_all add: positive_holdings_exec)

lemma positive_holdings_Account: "positive_holdings (Account f fee)"
  by (simp add: positive_holdings_def positive_entries_def Account_def)

lemma sell_stock_exhausts:
  "map_of (stocks_owned a) t = Some h \<Longrightarrow>
   val (case q of All \<Rightarrow> quantity h | Qty n \<Rightarrow> n) = val (quantity h) \<Longrightarrow>
   fst (sell_stock t q a) = None \<and> map_of (stocks_owned (snd (sell_stock t q a))) t = None"
  by (simp add: sell_stock_def Let_def AList.delete_conv')

text \<open>
  Claim C6, as stated, fails: no method checks the sign of a quantity, and a buy of zero
  shares on a fresh account (the funds cover the fee) leaves a holding of quantity 0.
\<close>

theorem zero_quantity_holding_counterexample:
  "map_of (stocks_owned zero_buy_account) ''A''
     = Some \<lparr>quantity = PInt 0, bought_p = PInt 10, current_p = PInt 10, options = None\<rparr>
   \<and> \<not> positive_holdings zero_buy_account"
  by (simp add: zero_buy_account_def model_defs positive_holdings_def positive_entries_def)

text \<open>
  Claim C6, amended: provided every buy is of a strictly positive quantity.
  \<^item> After any sequence of calls on a fresh account in which every buy is of a strictly
    positive quantity, every entry of \<^verbatim>\<open>stocks_owned\<close> has a strictly positive quantity.
  \<^item> More generally each such call keeps that property, whatever its outcome.
  \<^item> A sell of the whole quantity held (\<^verbatim>\<open>"all"\<close>, or a number equal to it) succeeds and
    leaves no entry for the ticker; the order of the holding lives in the entry and goes
    with it.
\<close>

theorem holdings_stay_positive:
  "(list_all positive_buy cs \<longrightarrow> positive_holdings (run cs (Account funds' fee)))
   \<and> (positive_holdings a \<and> positive_buy c \<longrightarrow> positive_holdings (snd (exec c a)))
   \<and> (map_of (stocks_owned a) ticker = Some h
        \<and> val (case q of All \<Rightarrow> quantity h | Qty n \<Rightarrow> n) = val (quantity h) \<longrightarrow>
      fst (sell_stock ticker q a) = None
        \<and> map_of (stocks_owned (snd (sell_stock ticker q a))) ticker = None)"
  using positive_holdings_run[OF positive_holdings_Account, of cs funds' fee]
    positive_holdings_exec[of a c] sell_stock_exhausts[of a ticker h q]
  by blast

theorem holdings_stay_positive_witness:
  "list_all positive_buy
     [Update [''A'' \<mapsto> PInt 50] ''A'', Buy ''A'' (PInt 10), Sell ''A'' (Qty (PInt 4)),
      TrailingStop ''A'' (PInt 6) (PInt 2) False, Update [''A'' \<mapsto> PInt 45] ''A'']
   \<and> positive_holdings
       (run [Update [''A'' \<mapsto> PInt 50] ''A'', Buy ''A'' (PInt 10), Sell ''A'' (Qty (PInt 4)),
             TrailingStop ''A'' (PInt 6) (PInt 2) False, Update [''A'' \<mapsto> PInt 45] ''A'']
          (Account (PInt 1000) (PFloat (699 / 100))))
   \<and> positive_holdings aapl_account
   \<and> positive_holdings (snd (exec (Sell ''AAPL'' All) aapl_account))
   \<and> map_of (stocks_owned (snd (sell_stock ''AAPL'' All aapl_account))) ''AAPL'' = None"
  using holdings_stay_positive
    [of "[Update [''A'' \<mapsto> PInt 50] ''A'', Buy ''A'' (PInt 10), Sell ''A'' (Qty (PInt 4)),
          TrailingStop ''A'' (PInt 6) (PInt 2) False, Update [''A'' \<mapsto> PInt 45] ''A'']"
        "PInt 1000" "PFloat (699 / 100)" aapl_account "Sell ''AAPL'' All" "''AAPL''"
        "\<lparr>quantity = PInt 5, bought_p = PInt 150, current_p = PInt 150, options = None\<rparr>" All]
  by (simp add: aapl_account_def model_defs positive_holdings_def positive_entries_def)

section \<open>The average cost\<close>

lemma is_float_padd [simp]: "is_float (padd x y) \<longleftrightarrow> is_float x \<or> is_float y"
  by (cases x; cases y) simp_all

lemma is_float_psub [simp]: "is_float (psub x y) \<longleftrightarrow> is_float x \<or> is_float y"
  by (cases x; cases y) simp_all

lemma is_float_pmul [simp]: "is_float (pmul x y) \<longleftrightarrow> is_float x \<or> is_float y"
  by (cases x; cases y) simp_all

lemma pdiv_true_division:
  "is_float x \<or> is_float y \<Longrightarrow> pdiv x y = Some d \<Longrightarrow> val d = val x / val y"
  by (cases x; cases y) (auto split: if_splits)

text \<open>
  Where one of the numbers involved is a \<^verbatim>\<open>float\<close>, a successful buy into an existing
  holding does store the weighted average of the specification.
\<close>

lemma buy_stock_average_of_floats:
  assumes "latest_prices a t = Some price" and "map_of (stocks_owned a) t = Some h"
    and "fst (buy_stock t n a) = None"
    and "is_float price \<or> is_float (bought_p h) \<or> is_float n \<or> is_float (quantity h)"
  shows "\<exists>h'. map_of (stocks_owned (snd (buy_stock t n a))) t = Some h'
           \<and> val (quantity h') = val (quantity h) + val n
           \<and> val (bought_p h')
               = (val (quantity h) * val (bought_p h) + val n * val price)
                   / (val (quantity h) + val n)"
proof -
  let ?num = "padd (pmul (quantity h) (bought_p h)) (pmul n price)"
  let ?den = "padd (quantity h) n"
  from assms(1-3) obtain d where d: "pdiv ?num ?den = Some d"
    by (auto simp add: buy_stock_def Let_def split: if_splits option.splits)
  have "is_float ?num \<or> is_float ?den" using assms(4) by auto
  from pdiv_true_division[OF this d] have "val d = val ?num / val ?den" .
  with assms(1-3) d show ?thesis
    by (auto simp add: buy_stock_def Let_def AList.update_conv' split: if_splits)
qed

text \<open>
  Claim C4: after successful buys of one ticker the average cost is the volume-weighted
  mean of the fill prices. The code computes
  \<^verbatim>\<open>float((old_amount + new_amount) / (quantity_held + quantity))\<close>: the conversion to
  \<^verbatim>\<open>float\<close> is applied to the quotient, and between \<^verbatim>\<open>int\<close>s the quotient of Python 2 is
  already floored. With \<^verbatim>\<open>int\<close> prices 10 and 11 and one share bought at each, the stored
  average is 10.0, and the volume-weighted mean is 10.5.
\<close>

theorem buy_stock_average_of_ints:
  "map_of (stocks_owned int_average_account) ''A''
     = Some \<lparr>quantity = PInt 2, bought_p = PFloat 10, current_p = PInt 11, options = None\<rparr>
   \<and> volume_weighted_mean [(1, 10), (1, 11)] = 21 / 2"
  by (simp add: int_average_account_def model_defs volume_weighted_mean_def)

section \<open>The report\<close>

lemma val_value_owned_fold:
  "val (fold (\<lambda>(stock, info) total_value. padd total_value (pmul (quantity info) (current_p info)))
          xs acc)
     = val acc + (\<Sum>(t, h)\<leftarrow>xs. val (quantity h) * val (current_p h))"
  by (induction xs arbitrary: acc) (auto simp add: case_prod_unfold)

lemma val_value_owned:
  "val (value_owned a) = (\<Sum>(t, h)\<leftarrow>stocks_owned a. val (quantity h) * val (current_p h))"
  by (simp add: value_owned_def val_value_owned_fold)

text \<open>
  The figures of a report that returns: the worth and the profit are as the specification
  says, and so is the percentage when the profit or the initial funds is a \<^verbatim>\<open>float\<close>.
\<close>

lemma report_figures:
  assumes "report verbose a = Inr r"
  shows "val (account_worth r)
           = val (funds a) + (\<Sum>(t, h)\<leftarrow>stocks_owned a. val (quantity h) * val (current_p h))"
    and "val (profit r) = val (account_worth r) - val (initial_funds a)"
    and "is_float (profit r) \<or> is_float (initial_funds a) \<Longrightarrow>
           val (profit_percentage r) = val (profit r) / val (initial_funds a)"
    and "number_of_transactions r = transactions a"
proof -
  let ?worth = "padd (funds a) (value_owned a)"
  let ?profit = "psub ?worth (initial_funds a)"
  from assms obtain d where d: "pdiv ?profit (initial_funds a) = Some d"
    and r: "account_worth r = ?worth" "profit r = ?profit" "profit_percentage r = pfloat d"
      "number_of_transactions r = transactions a"
    by (auto simp add: report_def Let_def split: option.splits sum.splits if_splits)
  show "val (account_worth r)
           = val (funds a) + (\<Sum>(t, h)\<leftarrow>stocks_owned a. val (quantity h) * val (current_p h))"
    using r(1) by (simp add: val_value_owned)
  show "val (profit r) = val (account_worth r) - val (initial_funds a)"
    using r(1,2) by simp
  show "number_of_transactions r = transactions a" by (rule r(4))
  assume "is_float (profit r) \<or> is_float (initial_funds a)"
  then have "is_float ?profit \<or> is_float (initial_funds a)" using r(2) by simp
  from pdiv_true_division[OF this d] show
    "val (profit_percentage r) = val (profit r) / val (initial_funds a)"
    using r(2,3) by simp
qed

text \<open>
  Claim C9: the figures of \<^verbatim>\<open>report\<close> are consistent, with the percentage equal to
  \<open>profit / initial_funds\<close>. The code computes \<^verbatim>\<open>float(profit / self.initial_funds)\<close>, and
  between \<^verbatim>\<open>int\<close>s the quotient of Python 2 is floored before the conversion. On
  \<^verbatim>\<open>Account(1000, 7)\<close> after one share bought at the \<^verbatim>\<open>int\<close> price 10, the worth is 993 and
  the profit -7, as the specification says, but the percentage reported is -1.0 (minus
  100 percent), and \<open>profit / initial_funds\<close> is -0.007.
\<close>

theorem report_percentage_of_ints:
  "report False int_report_account
     = Inr \<lparr>account_worth = PInt 993, profit = PInt (- 7), profit_percentage = PFloat (- 1),
            market_return = PFloat 0, stocks_held = [], number_of_transactions = 1\<rparr>
   \<and> val (funds int_report_account) + val (value_owned int_report_account) = 993
   \<and> val (PInt (- 7)) / val (initial_funds int_report_account) = - 7 / 1000"
  by (simp add: int_report_account_def model_defs report_def value_owned_def)

section \<open>Placing a trailing stop on a ticker that is not held\<close>

text \<open>
  Claim C10. When the account can pay the fee (\<^verbatim>\<open>funds - TRANSACTION_FEE >= 0\<close>) and the
  ticker is not a key of \<^verbatim>\<open>stocks_owned\<close>, \<^verbatim>\<open>trailing_stop\<close> ends with the \<^verbatim>\<open>KeyError\<close> of the
  dictionary lookup, which none of its handlers catches: the outcome is none of the five
  named failures, and the account is as it was.
\<close>

theorem trailing_stop_not_held:
  assumes "val (TRANSACTION_FEE a) \<le> val (funds a)"
    and "map_of (stocks_owned a) ticker = None"
  shows "trailing_stop ticker n pts pct a = (Some KeyError, a)
    \<and> fst (trailing_stop ticker n pts pct a) \<notin>
        {Some InsufficientFunds, Some UnknownTicker, Some NotOwned, Some OversellAttempt,
         Some OrderExceedsHoldings}"
  using assms by (simp add: trailing_stop_def)

theorem trailing_stop_not_held_witness:
  "val (TRANSACTION_FEE aapl_account) \<le> val (funds aapl_account)
   \<and> map_of (stocks_owned aapl_account) ''MSFT'' = None
   \<and> trailing_stop ''MSFT'' (PInt 5) (PInt 2) False aapl_account = (Some KeyError, aapl_account)"
  using trailing_stop_not_held [of aapl_account "''MSFT''" "PInt 5" "PInt 2" False]
  by (simp add: aapl_account_def model_defs)

end
